theory Spec2Isabelle
  imports Complex_Main "HOL-Library.Log_Nat"
begin

section \<open>JavaScript values used by the services\<close>

text \<open>
  The services are TypeScript running on JavaScript numbers. Amounts, ids and day counts
  are database integers, modelled as \<open>int\<close>; instants are milliseconds since the epoch,
  also \<open>int\<close>. An optional DTO field (\<open>number | undefined\<close>) and a nullable column
  (\<open>number | null\<close>) are both \<open>int option\<close>. The 32-bit range of the store's INTEGER
  columns is not modelled. The products and running sums of the payout preview are
  JavaScript arithmetic on doubles and are rounded as such (\<open>round_double\<close>); the column
  sums are the store's and exact.
\<close>

datatype jsnum = Num int | NaN

text \<open>\<open>a - b\<close> on two optional DTO fields: \<open>ToNumber(undefined)\<close> is NaN, and NaN propagates.\<close>

fun js_minus :: "int option \<Rightarrow> int option \<Rightarrow> jsnum" where
  "js_minus (Some a) (Some b) = Num (a - b)"
| "js_minus _ _ = NaN"

text \<open>\<open>ToNumber\<close> on a nullable column: \<open>ToNumber(null)\<close> is 0.\<close>

fun to_number :: "int option \<Rightarrow> int" where
  "to_number None = 0"
| "to_number (Some n) = n"

text \<open>
  The double nearest to an integer (ties to even). An integer below \<open>2 ^ 53\<close> in
  magnitude is a double; a larger one keeps its 53 leading bits. The result is an integer
  again; overflow to Infinity (beyond \<open>2 ^ 1024\<close>) is not modelled, and a negative
  zero, which compares equal to 0 and adds like 0, is the integer 0.
\<close>

definition round_double :: "int \<Rightarrow> int" where
  "round_double n =
     (if \<bar>n\<bar> < 2 ^ 53 then n
      else let e = nat (bitlen \<bar>n\<bar> - 53);
               q = \<bar>n\<bar> div 2 ^ e;
               r = \<bar>n\<bar> mod 2 ^ e;
               q' = (if 2 * r > 2 ^ e \<or> (2 * r = 2 ^ e \<and> odd q) then q + 1 else q)
           in sgn n * (q' * 2 ^ e))"

text \<open>\<open>a * b\<close> on two nullable columns, and \<open>a + b\<close> on two numbers.\<close>

definition js_times :: "int option \<Rightarrow> int option \<Rightarrow> int" where
  "js_times a b = round_double (to_number a * to_number b)"

definition js_plus :: "int \<Rightarrow> int \<Rightarrow> int" where
  "js_plus a b = round_double (a + b)"

text \<open>\<open>x || 0\<close> on \<open>number | null\<close>: null and 0 are falsy.\<close>

fun or_zero :: "int option \<Rightarrow> int" where
  "or_zero None = 0"
| "or_zero (Some n) = (if n = 0 then 0 else n)"

text \<open>\<open>x || d\<close> on \<open>string | undefined\<close>: undefined and the empty string are falsy.\<close>

fun or_string :: "string option \<Rightarrow> string \<Rightarrow> string" where
  "or_string None d = d"
| "or_string (Some s) d = (if s = [] then d else s)"

text \<open>\<open>if (staffId)\<close> on \<open>number | undefined\<close>: undefined and 0 are falsy.\<close>

fun truthy :: "int option \<Rightarrow> bool" where
  "truthy None = False"
| "truthy (Some n) = (n \<noteq> 0)"

definition msPerDay :: int where
  "msPerDay = 24 * 60 * 60 * 1000"

section \<open>The ledger store\<close>

text \<open>
  The tables of the Prisma schema, with the columns the services read or write. Fields
  that several tables share (\<open>id\<close>, \<open>name\<close>, \<open>type\<close>, \<open>clientId\<close>, \<open>amountNrs\<close>,
  \<open>title\<close>) carry the table's name as a prefix.
\<close>

datatype ClientType = PROSPECT | ACTIVE | INACTIVE

datatype StaffType = MONTHLY | WORK_BASIS

datatype ExpenseSource = STAFF_MONTHLY | STAFF_WORK_BASIS | GENERAL

datatype ReminderType = CONTRACT_EXPIRY | STAFF_CONTRACT | PAYMENT_DUE | GENERAL_REMINDER

datatype ReminderPriority = LOW | MEDIUM | HIGH | URGENT

datatype ReminderStage = INITIAL | MIDPOINT | FINAL

record Client =
  client_id :: int
  client_name :: string
  contractStartDate :: int
  contractDurationDays :: int
  client_type :: ClientType
  lockedAmountNrs :: int
  advanceAmountNrs :: int
  dueAmountNrs :: int

record Staff =
  staff_id :: int
  staff_name :: string
  staff_type :: StaffType
  isActive :: bool

record WorkItem =
  workItem_id :: int
  workItem_title :: string
  rateNrs :: int

text \<open>
  A StaffWork row as \<open>findMany\<close> returns it with
  \<open>include: { staff: true, workItem: true, client: true }\<close>: the required relation
  \<open>staff\<close> is always there, the optional relations \<open>workItem\<close> and \<open>client\<close> are null
  exactly when their foreign keys \<open>workItemId\<close> and \<open>clientId\<close> are null, so the record
  carries the relations and not the keys.
\<close>

record StaffWork =
  work_id :: int
  work_staffId :: int
  quantity :: "int option"
  unitRateNrs :: "int option"
  performedAt :: int
  staff :: Staff
  workItem :: "WorkItem option"
  client :: "Client option"

record Income =
  income_clientId :: int
  income_amountNrs :: int

record Expense =
  expense_source :: ExpenseSource
  expense_amountNrs :: int

text \<open>
  An AdminReminder row. The description of a contract-expiry reminder is a template
  string over the client's name, the days remaining and the stage; the model keeps the
  three interpolated values.
\<close>

record AdminReminder =
  reminder_title :: string
  reminder_description :: "(string \<times> int \<times> ReminderStage) option"
  reminder_type :: ReminderType
  reminder_priority :: ReminderPriority
  dueDate :: int
  reminder_clientId :: "int option"
  reminder_staffId :: "int option"
  reminder_stage :: "ReminderStage option"
  isCompleted :: bool

record Ledger =
  clients :: "Client list"
  staffs :: "Staff list"
  incomes :: "Income list"
  expenses :: "Expense list"
  staffWorks :: "StaffWork list"

datatype error = NotFoundException int | PrismaValidationError | TypeError

text \<open>\<open>aggregate({ _sum: ... })\<close>: the sum of a column, null over no rows.\<close>

definition aggregate_sum :: "int list \<Rightarrow> int option" where
  "aggregate_sum xs = (if xs = [] then None else Some (sum_list xs))"

text \<open>
  \<open>groupBy({ by: [key], _sum: ... })\<close>: one group per distinct key among the rows, with
  the sum of the column over the group's rows. The store fixes no order of the groups.
\<close>

definition groupBy_sum :: "('r \<Rightarrow> 'k) \<Rightarrow> ('r \<Rightarrow> int) \<Rightarrow> 'r list \<Rightarrow> ('k \<times> int option) list" where
  "groupBy_sum key amount rows =
     map (\<lambda>k. (k, aggregate_sum (map amount (filter (\<lambda>r. key r = k) rows))))
       (remdups (map key rows))"

text \<open>\<open>client.findUnique({ where: { id } })\<close>: the row, or null.\<close>

definition findUnique_client :: "Client list \<Rightarrow> int \<Rightarrow> Client option" where
  "findUnique_client cs i = find (\<lambda>c. client_id c = i) cs"

section \<open>Reminder staging (RemindersService)\<close>

text \<open>
  \<open>Math.floor(totalDays * 0.5)\<close> and \<open>Math.floor(totalDays * 0.25)\<close>: the products are
  exact in double precision for an integer \<open>totalDays\<close>, so the floor is taken over
  the rationals.
\<close>

definition getPriorityAndStages :: "int \<Rightarrow> int \<Rightarrow> ReminderPriority \<times> ReminderStage" where
  "getPriorityAndStages totalDays daysRemaining =
     (let halfwayPoint = \<lfloor>rat_of_int totalDays * 0.5\<rfloor>;
          quarterPoint = \<lfloor>rat_of_int totalDays * 0.25\<rfloor>
      in if daysRemaining \<le> quarterPoint then (URGENT, FINAL)
         else if daysRemaining \<le> halfwayPoint then (HIGH, MIDPOINT)
         else (MEDIUM, INITIAL))"

record ReminderCandidate =
  candidate_client :: Client
  daysUntilExpiry :: int
  candidate_priority :: ReminderPriority
  candidate_stage :: ReminderStage

text \<open>
  \<open>getClientsForReminder\<close> at the instant \<open>now\<close>. \<open>setDate(now.getDate() + 30)\<close> on a
  Date of the same instant moves it 30 calendar days on, which is \<open>30 * msPerDay\<close> in a
  zone without daylight saving (the job's zone is Asia/Kathmandu).
\<close>

definition getClientsForReminder :: "Client list \<Rightarrow> int \<Rightarrow> ReminderCandidate list" where
  "getClientsForReminder cs now =
     (let thirtyDaysFromNow = now + 30 * msPerDay;
          clients30Days =
            filter (\<lambda>c. contractStartDate c \<le> thirtyDaysFromNow
                       \<and> contractStartDate c \<ge> thirtyDaysFromNow - 24 * 60 * 60 * 1000) cs
      in map (\<lambda>c.
           let totalContractDays = contractDurationDays c;
               daysRemaining =
                 \<lceil>rat_of_int (contractStartDate c + totalContractDays * 24 * 60 * 60 * 1000 - now)
                    / rat_of_int (24 * 60 * 60 * 1000)\<rceil>;
               ps = getPriorityAndStages totalContractDays daysRemaining
           in \<lparr> candidate_client = c, daysUntilExpiry = daysRemaining,
                candidate_priority = fst ps, candidate_stage = snd ps \<rparr>) clients30Days)"

fun stage_name :: "ReminderStage \<Rightarrow> string" where
  "stage_name INITIAL = ''INITIAL''"
| "stage_name MIDPOINT = ''MIDPOINT''"
| "stage_name FINAL = ''FINAL''"

text \<open>
  The mail handed to the transporter: subject and body are template strings over these
  values of the candidate.
\<close>

record MailOptions =
  mail_clientName :: string
  mail_daysUntilExpiry :: int
  mail_stage :: ReminderStage
  mail_contractStartDate :: int
  mail_contractDurationDays :: int

datatype LogEntry =
    LogSent string int ReminderStage
  | LogFailed string
  | LogCreated nat

text \<open>
  What a run of the job leaves behind: the AdminReminder table, every mail handed to
  \<open>transporter.sendMail\<close> (delivered or not), and the logger's lines.
\<close>

record ReminderState =
  adminReminders :: "AdminReminder list"
  attempted :: "MailOptions list"
  logged :: "LogEntry list"

text \<open>\<open>createAdminReminder\<close>: \<open>priority || MEDIUM\<close>, then the row is inserted.\<close>

definition createAdminReminder ::
  "string \<Rightarrow> (string \<times> int \<times> ReminderStage) option \<Rightarrow> ReminderType \<Rightarrow> ReminderPriority option
     \<Rightarrow> int \<Rightarrow> int option \<Rightarrow> int option \<Rightarrow> ReminderStage option \<Rightarrow> ReminderState \<Rightarrow> ReminderState" where
  "createAdminReminder title description type priority due clientId staffId stage s =
     s\<lparr> adminReminders := adminReminders s @
          [\<lparr> reminder_title = title, reminder_description = description,
             reminder_type = type,
             reminder_priority = (case priority of None \<Rightarrow> MEDIUM | Some p \<Rightarrow> p),
             dueDate = due, reminder_clientId = clientId, reminder_staffId = staffId,
             reminder_stage = stage, isCompleted = False \<rparr>] \<rparr>"

definition mailOptions :: "ReminderCandidate \<Rightarrow> MailOptions" where
  "mailOptions r =
     \<lparr> mail_clientName = client_name (candidate_client r),
       mail_daysUntilExpiry = daysUntilExpiry r,
       mail_stage = candidate_stage r,
       mail_contractStartDate = contractStartDate (candidate_client r),
       mail_contractDurationDays = contractDurationDays (candidate_client r) \<rparr>"

text \<open>
  \<open>sendAdminReminderEmail\<close>: the transporter is the external collaborator, a function
  saying whether \<open>sendMail\<close> resolves (\<open>True\<close>) or rejects (\<open>False\<close>). A rejection is
  caught and logged; nothing is rethrown.
\<close>

definition sendAdminReminderEmail ::
  "(MailOptions \<Rightarrow> bool) \<Rightarrow> ReminderCandidate \<Rightarrow> ReminderState \<Rightarrow> ReminderState" where
  "sendAdminReminderEmail sendMail r s =
     (let s1 = s\<lparr> attempted := attempted s @ [mailOptions r] \<rparr>
      in if sendMail (mailOptions r)
         then s1\<lparr> logged := logged s1 @
                [LogSent (client_name (candidate_client r)) (daysUntilExpiry r) (candidate_stage r)] \<rparr>
         else s1\<lparr> logged := logged s1 @ [LogFailed (client_name (candidate_client r))] \<rparr>)"

text \<open>The body of the \<open>for (const reminder of reminders)\<close> loop, then the loop.\<close>

definition process_reminder ::
  "(MailOptions \<Rightarrow> bool) \<Rightarrow> ReminderCandidate \<Rightarrow> ReminderState \<Rightarrow> ReminderState" where
  "process_reminder sendMail r s =
     sendAdminReminderEmail sendMail r
       (createAdminReminder
          (''Contract Expiry '' @ stage_name (candidate_stage r) @ '' Alert - ''
             @ client_name (candidate_client r))
          (Some (client_name (candidate_client r), daysUntilExpiry r, candidate_stage r))
          CONTRACT_EXPIRY
          (Some (candidate_priority r))
          (contractStartDate (candidate_client r))
          (Some (client_id (candidate_client r)))
          None
          (Some (candidate_stage r))
          s)"

text \<open>
  What one selected client is expected to leave behind: its AdminReminder row, and the
  logger's line for its dispatch (sent, or failed when the transporter rejects).
\<close>

definition reminder_row :: "ReminderCandidate \<Rightarrow> AdminReminder" where
  "reminder_row r =
     \<lparr> reminder_title = ''Contract Expiry '' @ stage_name (candidate_stage r) @ '' Alert - ''
         @ client_name (candidate_client r),
       reminder_description = Some (client_name (candidate_client r), daysUntilExpiry r, candidate_stage r),
       reminder_type = CONTRACT_EXPIRY,
       reminder_priority = candidate_priority r,
       dueDate = contractStartDate (candidate_client r),
       reminder_clientId = Some (client_id (candidate_client r)),
       reminder_staffId = None,
       reminder_stage = Some (candidate_stage r),
       isCompleted = False \<rparr>"

definition dispatch_log :: "(MailOptions \<Rightarrow> bool) \<Rightarrow> ReminderCandidate \<Rightarrow> LogEntry" where
  "dispatch_log sendMail r =
     (if sendMail (mailOptions r)
      then LogSent (client_name (candidate_client r)) (daysUntilExpiry r) (candidate_stage r)
      else LogFailed (client_name (candidate_client r)))"

fun reminders_loop ::
  "(MailOptions \<Rightarrow> bool) \<Rightarrow> ReminderCandidate list \<Rightarrow> ReminderState \<Rightarrow> ReminderState" where
  "reminders_loop sendMail [] s = s"
| "reminders_loop sendMail (r # rs) s = reminders_loop sendMail rs (process_reminder sendMail r s)"

definition sendContractExpiryReminders ::
  "(MailOptions \<Rightarrow> bool) \<Rightarrow> Client list \<Rightarrow> int \<Rightarrow> ReminderState \<Rightarrow> ReminderState" where
  "sendContractExpiryReminders sendMail cs now s =
     (let reminders = getClientsForReminder cs now;
          s' = reminders_loop sendMail reminders s
      in s'\<lparr> logged := logged s' @ [LogCreated (length reminders)] \<rparr>)"

section \<open>Account adjustment (ClientsService)\<close>

record AdjustAccountDto =
  lockedDelta :: "int option"
  advanceDelta :: "int option"

text \<open>
  The \<open>updates\<close> object handed to \<open>prisma.client.update\<close>: an \<open>increment\<close> per
  column, the first two only when their delta is not undefined (\<open>None\<close>: the key is
  absent), the third always, computed by a JavaScript subtraction of the two optional
  fields.
\<close>

record ClientUpdates =
  increment_lockedAmountNrs :: "int option"
  increment_advanceAmountNrs :: "int option"
  increment_dueAmountNrs :: jsnum

definition adjustAccount_updates :: "AdjustAccountDto \<Rightarrow> ClientUpdates" where
  "adjustAccount_updates adjustAccountDto =
     \<lparr> increment_lockedAmountNrs =
         (if lockedDelta adjustAccountDto \<noteq> None then lockedDelta adjustAccountDto else None),
       increment_advanceAmountNrs =
         (if advanceDelta adjustAccountDto \<noteq> None then advanceDelta adjustAccountDto else None),
       increment_dueAmountNrs =
         js_minus (lockedDelta adjustAccountDto) (advanceDelta adjustAccountDto) \<rparr>"

text \<open>
  \<open>prisma.client.update({ where: { id }, data: updates })\<close> on the row found: each
  present increment is added to its column. An increment that is not an integer (NaN) is
  refused by the client's validation of an Int column, and the transaction changes
  nothing.
\<close>

definition client_update :: "ClientUpdates \<Rightarrow> Client \<Rightarrow> error + Client" where
  "client_update updates c =
     (case increment_dueAmountNrs updates of
        NaN \<Rightarrow> Inl PrismaValidationError
      | Num d \<Rightarrow>
          Inr (c\<lparr> lockedAmountNrs := lockedAmountNrs c + to_number (increment_lockedAmountNrs updates),
                 advanceAmountNrs := advanceAmountNrs c + to_number (increment_advanceAmountNrs updates),
                 dueAmountNrs := dueAmountNrs c + d \<rparr>))"

definition findOne :: "Ledger \<Rightarrow> int \<Rightarrow> error + Client" where
  "findOne db i =
     (case findUnique_client (clients db) i of
        None \<Rightarrow> Inl (NotFoundException i)
      | Some c \<Rightarrow> Inr c)"

text \<open>
  \<open>adjustAccount\<close> returns the updated client; the model returns the ledger after the
  transaction with it. \<open>id\<close> is the table's primary key, so the update touches the one
  row that carries it.
\<close>

definition adjustAccount :: "Ledger \<Rightarrow> int \<Rightarrow> AdjustAccountDto \<Rightarrow> error + (Client \<times> Ledger)" where
  "adjustAccount db i adjustAccountDto =
     (case findOne db i of
        Inl e \<Rightarrow> Inl e
      | Inr c \<Rightarrow>
          (case client_update (adjustAccount_updates adjustAccountDto) c of
             Inl e \<Rightarrow> Inl e
           | Inr c' \<Rightarrow>
               Inr (c', db\<lparr> clients := map (\<lambda>x. if client_id x = i then c' else x) (clients db) \<rparr>)))"

text \<open>
  A sequence of calls on one client. A call that throws leaves the ledger as it was, and
  the next request runs on that ledger.
\<close>

fun adjustAccount_calls :: "Ledger \<Rightarrow> int \<Rightarrow> AdjustAccountDto list \<Rightarrow> Ledger" where
  "adjustAccount_calls db i [] = db"
| "adjustAccount_calls db i (dto # dtos) =
     (case adjustAccount db i dto of
        Inl e \<Rightarrow> adjustAccount_calls db i dtos
      | Inr (c, db') \<Rightarrow> adjustAccount_calls db' i dtos)"

text \<open>The accounting identity of one client row.\<close>

definition accounting_identity :: "Client \<Rightarrow> bool" where
  "accounting_identity c = (dueAmountNrs c = lockedAmountNrs c - advanceAmountNrs c)"

section \<open>Account summary (AccountsService.getSummary)\<close>

record Totals =
  totalIncomeNrs :: int
  totalExpenseNrs :: int
  netNrs :: int

record IncomeByClient =
  entry_clientId :: int
  entry_name :: string
  income_total :: int

record ExpenseBySource =
  entry_source :: ExpenseSource
  expense_total :: int

record Counts =
  activeClients :: nat
  activeStaff :: nat
  openContracts :: nat
  contractsExpiringIn30Days :: nat
  contractsExpiringIn7Days :: nat
  contractsExpiringIn1Day :: nat

record Summary =
  totals :: Totals
  incomeByClient :: "IncomeByClient list"
  expenseBySource :: "ExpenseBySource list"
  counts :: Counts

text \<open>\<open>count({ where })\<close>: the number of rows that satisfy the filter.\<close>

definition count_where :: "('r \<Rightarrow> bool) \<Rightarrow> 'r list \<Rightarrow> nat" where
  "count_where P rows = length (filter P rows)"

text \<open>
  The filter of the three contract-expiry counts, as the source writes it: type ACTIVE
  and the \<open>AND\<close> of three conditions on \<open>contractStartDate\<close>, which are
  \<open>lte: now\<close>, \<open>lte: horizon\<close> and \<open>gt: now\<close>.
\<close>

definition expiring_where :: "int \<Rightarrow> int \<Rightarrow> Client \<Rightarrow> bool" where
  "expiring_where now horizon c =
     (client_type c = ACTIVE
      \<and> (contractStartDate c \<le> now
         \<and> contractStartDate c \<le> horizon
         \<and> contractStartDate c > now))"

text \<open>
  \<open>getSummary\<close> at the instant \<open>now\<close>. The horizons are Dates set with
  \<open>setDate(now.getDate() + h)\<close>, which is \<open>h\<close> calendar days after \<open>now\<close>.
\<close>

definition getSummary :: "Ledger \<Rightarrow> int \<Rightarrow> Summary" where
  "getSummary db now =
     (let totalIncomeResult = aggregate_sum (map income_amountNrs (incomes db));
          totalExpenseResult = aggregate_sum (map expense_amountNrs (expenses db));
          totalIncome = or_zero totalIncomeResult;
          totalExpense = or_zero totalExpenseResult;
          net = totalIncome - totalExpense;
          incomeByClientGroups = groupBy_sum income_clientId income_amountNrs (incomes db);
          incomeByClientWithNames =
            map (\<lambda>income.
                   \<lparr> entry_clientId = fst income,
                     entry_name =
                       or_string (map_option client_name (findUnique_client (clients db) (fst income)))
                         ''Unknown'',
                     income_total = or_zero (snd income) \<rparr>) incomeByClientGroups;
          expenseBySourceGroups = groupBy_sum expense_source expense_amountNrs (expenses db);
          expenseBySourceFormatted =
            map (\<lambda>expense. \<lparr> entry_source = fst expense, expense_total = or_zero (snd expense) \<rparr>)
              expenseBySourceGroups;
          activeClientsCount = count_where (\<lambda>c. client_type c = ACTIVE) (clients db);
          activeStaffCount = count_where (\<lambda>s. isActive s = True) (staffs db);
          openContractsCount = count_where (\<lambda>c. client_type c = ACTIVE) (clients db);
          thirtyDaysFromNow = now + 30 * msPerDay;
          sevenDaysFromNow = now + 7 * msPerDay;
          oneDayFromNow = now + 1 * msPerDay
      in \<lparr> totals = \<lparr> totalIncomeNrs = totalIncome, totalExpenseNrs = totalExpense, netNrs = net \<rparr>,
           incomeByClient = incomeByClientWithNames,
           expenseBySource = expenseBySourceFormatted,
           counts =
             \<lparr> activeClients = activeClientsCount,
               activeStaff = activeStaffCount,
               openContracts = openContractsCount,
               contractsExpiringIn30Days = count_where (expiring_where now thirtyDaysFromNow) (clients db),
               contractsExpiringIn7Days = count_where (expiring_where now sevenDaysFromNow) (clients db),
               contractsExpiringIn1Day = count_where (expiring_where now oneDayFromNow) (clients db) \<rparr> \<rparr>)"

text \<open>
  The count the contract-expiry sentence describes: ACTIVE clients whose
  \<open>contractStartDate\<close> lies in the interval \<open>(now, now + h days]\<close>.
\<close>

definition expiring_within :: "Client list \<Rightarrow> int \<Rightarrow> int \<Rightarrow> nat" where
  "expiring_within cs now h =
     length (filter (\<lambda>c. client_type c = ACTIVE
                        \<and> now < contractStartDate c
                        \<and> contractStartDate c \<le> now + h * msPerDay) cs)"

section \<open>Staff work payout preview (AccountsService.getStaffWorkPayoutPreview)\<close>

text \<open>
  \<open>new Date(year, monthIndex, day)\<close>, after the ECMAScript definitions: \<open>DayFromYear\<close>,
  the days before a month within its year, and \<open>MakeDay\<close>, which carries a month index
  outside 0..11 into the year and counts days linearly, so that day 0 of a month is the
  last day of the month before. The result is local midnight of that day; \<open>tz\<close> is the
  server zone's offset from UTC in milliseconds (a zone without daylight saving). A year
  from 0 to 99 means 1900 + year.
\<close>

definition DayFromYear :: "int \<Rightarrow> int" where
  "DayFromYear y =
     365 * (y - 1970) + (y - 1969) div 4 - (y - 1901) div 100 + (y - 1601) div 400"

definition InLeapYear :: "int \<Rightarrow> bool" where
  "InLeapYear y = ((y mod 4 = 0 \<and> y mod 100 \<noteq> 0) \<or> y mod 400 = 0)"

definition DaysBeforeMonth :: "int \<Rightarrow> int \<Rightarrow> int" where
  "DaysBeforeMonth y mn =
     [0, 31, 59, 90, 120, 151, 181, 212, 243, 273, 304, 334] ! nat mn
       + (if InLeapYear y \<and> 2 \<le> mn then 1 else 0)"

definition MakeDay :: "int \<Rightarrow> int \<Rightarrow> int \<Rightarrow> int" where
  "MakeDay year month date =
     (let ym = year + month div 12;
          mn = month mod 12
      in DayFromYear ym + DaysBeforeMonth ym mn + date - 1)"

definition new_Date :: "int \<Rightarrow> int \<Rightarrow> int \<Rightarrow> int \<Rightarrow> int" where
  "new_Date tz year monthIndex day =
     (let yr = (if 0 \<le> year \<and> year \<le> 99 then 1900 + year else year)
      in MakeDay yr monthIndex day * msPerDay - tz)"

text \<open>
  The \<open>where\<close> condition of \<open>staffWork.findMany\<close>: \<open>performedAt\<close> between
  \<open>new Date(year, month - 1, 1)\<close> and \<open>new Date(year, month, 0)\<close>, both inclusive, the
  staff of type WORK_BASIS, and the staff id only \<open>if (staffId)\<close>.
\<close>

definition payout_where :: "int \<Rightarrow> int \<Rightarrow> int \<Rightarrow> int option \<Rightarrow> StaffWork \<Rightarrow> bool" where
  "payout_where tz month year staffId work =
     (let startDate = new_Date tz year (month - 1) 1;
          endDate = new_Date tz year month 0
      in startDate \<le> performedAt work \<and> performedAt work \<le> endDate
         \<and> staff_type (staff work) = WORK_BASIS
         \<and> (if truthy staffId then Some (work_staffId work) = staffId else True))"

record WorkLine =
  line_id :: int
  line_workItem :: string
  line_client :: string
  line_quantity :: "int option"
  line_unitRate :: "int option"
  line_total :: int
  line_performedAt :: int

record StaffPayout =
  payout_staffId :: int
  staffName :: string
  totalAmount :: int
  works :: "WorkLine list"

text \<open>
  The accumulator of \<open>reduce\<close> is a JavaScript object keyed by staff id. Its integer keys
  enumerate in ascending order, so the model keeps the entries sorted by key: \<open>obj_set\<close>
  is the assignment \<open>acc[k] = v\<close>, \<open>map_of\<close> the read \<open>acc[k]\<close>, and \<open>Object.values\<close> the
  list of the second components.
\<close>

fun obj_set :: "int \<Rightarrow> 'v \<Rightarrow> (int \<times> 'v) list \<Rightarrow> (int \<times> 'v) list" where
  "obj_set k v [] = [(k, v)]"
| "obj_set k v ((k', v') # kvs) =
     (if k = k' then (k, v) # kvs
      else if k < k' then (k, v) # (k', v') # kvs
      else (k', v') # obj_set k v kvs)"

text \<open>
  One step of the \<open>reduce\<close> callback. \<open>work.workItem.title\<close> on a row without a work
  item reads a property of null, which throws a TypeError; \<open>work.quantity *
  work.unitRateNrs\<close> is a JavaScript product of two nullable numbers, and
  \<open>totalAmount += workTotal\<close> a JavaScript sum.
\<close>

definition payout_step :: "(int \<times> StaffPayout) list \<Rightarrow> StaffWork \<Rightarrow> error + (int \<times> StaffPayout) list" where
  "payout_step acc work =
     (let staffKey = work_staffId work;
          entry = (case map_of acc staffKey of
                     None \<Rightarrow> \<lparr> payout_staffId = work_staffId work,
                               staffName = staff_name (staff work),
                               totalAmount = 0, works = [] \<rparr>
                   | Some e \<Rightarrow> e);
          workTotal = js_times (quantity work) (unitRateNrs work)
      in case workItem work of
           None \<Rightarrow> Inl TypeError
         | Some wi \<Rightarrow>
             Inr (obj_set staffKey
                    (entry\<lparr> totalAmount := js_plus (totalAmount entry) workTotal,
                            works := works entry @
                              [\<lparr> line_id = work_id work,
                                 line_workItem = workItem_title wi,
                                 line_client = or_string (map_option client_name (client work)) ''No Client'',
                                 line_quantity = quantity work,
                                 line_unitRate = unitRateNrs work,
                                 line_total = workTotal,
                                 line_performedAt = performedAt work \<rparr>] \<rparr>)
                    acc))"

fun payout_reduce :: "(int \<times> StaffPayout) list \<Rightarrow> StaffWork list \<Rightarrow> error + (int \<times> StaffPayout) list" where
  "payout_reduce acc [] = Inr acc"
| "payout_reduce acc (work # rest) =
     (case payout_step acc work of
        Inl e \<Rightarrow> Inl e
      | Inr acc' \<Rightarrow> payout_reduce acc' rest)"

definition getStaffWorkPayoutPreview ::
  "int \<Rightarrow> Ledger \<Rightarrow> int \<Rightarrow> int \<Rightarrow> int option \<Rightarrow> error + StaffPayout list" where
  "getStaffWorkPayoutPreview tz db month year staffId =
     (let selected = filter (payout_where tz month year staffId) (staffWorks db)
      in case payout_reduce [] selected of
           Inl e \<Rightarrow> Inl e
         | Inr payoutPreview \<Rightarrow> Inr (map snd payoutPreview))"

text \<open>
  The local calendar day an instant falls on, as a day number: the last calendar day of
  the queried month is the day before the first day of the month after it.
\<close>

definition local_day :: "int \<Rightarrow> int \<Rightarrow> int" where
  "local_day tz t = (t + tz) div msPerDay"

definition last_day_of_month :: "int \<Rightarrow> int \<Rightarrow> int" where
  "last_day_of_month year month = MakeDay year month 1 - 1"

definition first_day_of_next_month :: "int \<Rightarrow> int \<Rightarrow> int" where
  "first_day_of_next_month year month = MakeDay year month 1"

text \<open>
  For the proofs about the \<open>reduce\<close>: the accumulator's entry of a row's staff as the
  callback reads it (a fresh one when the key is new), the line the callback pushes, the
  fact that a row is listed under its staff with its own quantity, rate and line total,
  the fact that every entry's \<open>totalAmount\<close> is the running JavaScript sum of its lines'
  totals, in the order of the lines, and the fact that every entry stands under the key
  of its own staff id.
\<close>

definition payout_entry :: "(int \<times> StaffPayout) list \<Rightarrow> StaffWork \<Rightarrow> StaffPayout" where
  "payout_entry acc w =
     (case map_of acc (work_staffId w) of
        None \<Rightarrow> \<lparr> payout_staffId = work_staffId w, staffName = staff_name (staff w),
                  totalAmount = 0, works = [] \<rparr>
      | Some e \<Rightarrow> e)"

definition work_line :: "StaffWork \<Rightarrow> WorkItem \<Rightarrow> WorkLine" where
  "work_line w wi =
     \<lparr> line_id = work_id w, line_workItem = workItem_title wi,
       line_client = or_string (map_option client_name (client w)) ''No Client'',
       line_quantity = quantity w, line_unitRate = unitRateNrs w,
       line_total = js_times (quantity w) (unitRateNrs w),
       line_performedAt = performedAt w \<rparr>"

definition listed :: "(int \<times> StaffPayout) list \<Rightarrow> StaffWork \<Rightarrow> bool" where
  "listed acc w =
     (\<exists>e l. map_of acc (work_staffId w) = Some e \<and> l \<in> set (works e) \<and> line_id l = work_id w
        \<and> line_total l = js_times (quantity w) (unitRateNrs w)
        \<and> line_quantity l = quantity w \<and> line_unitRate l = unitRateNrs w)"

definition running_total :: "WorkLine list \<Rightarrow> int" where
  "running_total ls = foldl js_plus 0 (map line_total ls)"

definition totals_add_up :: "(int \<times> StaffPayout) list \<Rightarrow> bool" where
  "totals_add_up acc = (\<forall>e \<in> snd ` set acc. totalAmount e = running_total (works e))"

definition keyed :: "(int \<times> StaffPayout) list \<Rightarrow> bool" where
  "keyed acc = (\<forall>(k, e) \<in> set acc. payout_staffId e = k)"

section \<open>Reminder staging: classification and the daily run\<close>

lemma floor_half: "\<lfloor>rat_of_int t * 0.5\<rfloor> = t div 2"
  using floor_divide_of_int_eq[of t 2, where ?'a = rat] by simp

lemma floor_quarter: "\<lfloor>rat_of_int t * 0.25\<rfloor> = t div 4"
  using floor_divide_of_int_eq[of t 4, where ?'a = rat] by simp

text \<open>
  C5. The classification depends on the two integers only: URGENT/FINAL when
  \<open>daysRemaining\<close> is at most the floor of a quarter of \<open>totalDays\<close>, else HIGH/MIDPOINT
  when it is at most the floor of half of \<open>totalDays\<close>, else MEDIUM/INITIAL. For
  \<open>totalDays = 100\<close>: 10 and the boundary 25 are URGENT/FINAL, 40 is HIGH/MIDPOINT, 90 is
  MEDIUM/INITIAL.
\<close>

theorem getPriorityAndStages_classification:
  "getPriorityAndStages totalDays daysRemaining =
     (if daysRemaining \<le> totalDays div 4 then (URGENT, FINAL)
      else if daysRemaining \<le> totalDays div 2 then (HIGH, MIDPOINT)
      else (MEDIUM, INITIAL))
   \<and> getPriorityAndStages 100 10 = (URGENT, FINAL)
   \<and> getPriorityAndStages 100 25 = (URGENT, FINAL)
   \<and> getPriorityAndStages 100 40 = (HIGH, MIDPOINT)
   \<and> getPriorityAndStages 100 90 = (MEDIUM, INITIAL)"
  unfolding getPriorityAndStages_def Let_def floor_half floor_quarter by simp

lemma process_reminder_effect:
  "process_reminder sendMail r s =
     \<lparr> adminReminders = adminReminders s @ [reminder_row r],
       attempted = attempted s @ [mailOptions r],
       logged = logged s @ [dispatch_log sendMail r] \<rparr>"
  by (simp add: process_reminder_def sendAdminReminderEmail_def createAdminReminder_def
      reminder_row_def dispatch_log_def Let_def)

lemma reminders_loop_effect:
  "reminders_loop sendMail rs s =
     \<lparr> adminReminders = adminReminders s @ map reminder_row rs,
       attempted = attempted s @ map mailOptions rs,
       logged = logged s @ map (dispatch_log sendMail) rs \<rparr>"
proof (induction rs arbitrary: s)
  case Nil
  show ?case by simp
next
  case (Cons r rs)
  show ?case by (simp add: Cons.IH process_reminder_effect)
qed

text \<open>
  C8. Whatever the transporter does with each mail (\<open>sendMail\<close> is arbitrary, so it may
  reject the mail of any client), the run goes through every selected client in order:
  each gets its AdminReminder row, each has its mail handed to the transporter, and each
  dispatch leaves one log line, a failure line where the transporter rejected. The run
  ends with its summary line.
\<close>

theorem sendContractExpiryReminders_survives_mail_failure:
  "adminReminders (sendContractExpiryReminders sendMail cs now s)
     = adminReminders s @ map reminder_row (getClientsForReminder cs now)
   \<and> attempted (sendContractExpiryReminders sendMail cs now s)
     = attempted s @ map mailOptions (getClientsForReminder cs now)
   \<and> logged (sendContractExpiryReminders sendMail cs now s)
     = logged s @ map (dispatch_log sendMail) (getClientsForReminder cs now)
         @ [LogCreated (length (getClientsForReminder cs now))]"
  by (simp add: sendContractExpiryReminders_def Let_def reminders_loop_effect)

section \<open>Account summary: totals and breakdowns\<close>

lemma or_zero_aggregate_sum: "or_zero (aggregate_sum xs) = sum_list xs"
  by (simp add: aggregate_sum_def)

lemma sum_list_indicator:
  "distinct gs \<Longrightarrow> (\<Sum>g\<leftarrow>gs. if a = g then (c::int) else 0) = (if a \<in> set gs then c else 0)"
  by (induction gs) auto

lemma sum_over_groups:
  "distinct gs \<Longrightarrow> set (map key rows) \<subseteq> set gs \<Longrightarrow>
     (\<Sum>g\<leftarrow>gs. sum_list (map amount (filter (\<lambda>r. key r = g) rows)))
       = sum_list (map (amount :: 'r \<Rightarrow> int) rows)"
proof (induction rows)
  case Nil
  then show ?case by simp
next
  case (Cons r rows)
  have split: "\<And>g. sum_list (map amount (filter (\<lambda>x. key x = g) (r # rows)))
      = (if key r = g then amount r else 0) + sum_list (map amount (filter (\<lambda>x. key x = g) rows))"
    by simp
  have "(\<Sum>g\<leftarrow>gs. sum_list (map amount (filter (\<lambda>x. key x = g) (r # rows))))
      = (\<Sum>g\<leftarrow>gs. if key r = g then amount r else 0)
        + (\<Sum>g\<leftarrow>gs. sum_list (map amount (filter (\<lambda>x. key x = g) rows)))"
    unfolding split by (simp add: sum_list_addf)
  also have "\<dots> = amount r + sum_list (map amount rows)"
    using Cons by (simp add: sum_list_indicator)
  finally show ?case by simp
qed

lemma groupBy_sum_total:
  "(\<Sum>g\<leftarrow>groupBy_sum key amount rows. or_zero (snd g)) = sum_list (map amount rows)"
proof -
  have "(\<Sum>g\<leftarrow>groupBy_sum key amount rows. or_zero (snd g))
      = (\<Sum>k\<leftarrow>remdups (map key rows). sum_list (map amount (filter (\<lambda>r. key r = k) rows)))"
    by (simp add: groupBy_sum_def comp_def or_zero_aggregate_sum)
  also have "\<dots> = sum_list (map amount rows)"
    by (rule sum_over_groups) simp_all
  finally show ?thesis .
qed

lemma groupBy_sum_keys: "map fst (groupBy_sum key amount rows) = remdups (map key rows)"
  by (simp add: groupBy_sum_def comp_def)

lemma incomeByClient_sum:
  "sum_list (map income_total (incomeByClient (getSummary db now)))
     = sum_list (map income_amountNrs (incomes db))"
  using groupBy_sum_total[of income_clientId income_amountNrs "incomes db"]
  by (simp add: getSummary_def Let_def comp_def)

lemma expenseBySource_sum:
  "sum_list (map expense_total (expenseBySource (getSummary db now)))
     = sum_list (map expense_amountNrs (expenses db))"
  using groupBy_sum_total[of expense_source expense_amountNrs "expenses db"]
  by (simp add: getSummary_def Let_def comp_def)

lemma totalIncomeNrs_sum:
  "totalIncomeNrs (totals (getSummary db now)) = sum_list (map income_amountNrs (incomes db))"
  by (simp add: getSummary_def Let_def or_zero_aggregate_sum del: or_zero.simps)

lemma totalExpenseNrs_sum:
  "totalExpenseNrs (totals (getSummary db now)) = sum_list (map expense_amountNrs (expenses db))"
  by (simp add: getSummary_def Let_def or_zero_aggregate_sum del: or_zero.simps)

lemma incomeByClient_eq:
  "incomeByClient (getSummary db now) =
     map (\<lambda>k. \<lparr> entry_clientId = k,
                entry_name = or_string (map_option client_name (findUnique_client (clients db) k)) ''Unknown'',
                income_total = sum_list (map income_amountNrs (filter (\<lambda>r. income_clientId r = k) (incomes db))) \<rparr>)
       (remdups (map income_clientId (incomes db)))"
  by (simp add: getSummary_def Let_def groupBy_sum_def comp_def aggregate_sum_def)

text \<open>
  C3. For every ledger, \<open>totalIncomeNrs\<close> is the sum of all Income amounts,
  \<open>totalExpenseNrs\<close> the sum of all Expense amounts, and \<open>netNrs\<close> their difference; with
  no Income and no Expense rows the three totals are 0.
\<close>

theorem getSummary_totals:
  "totalIncomeNrs (totals (getSummary db now)) = sum_list (map income_amountNrs (incomes db))
   \<and> totalExpenseNrs (totals (getSummary db now)) = sum_list (map expense_amountNrs (expenses db))
   \<and> netNrs (totals (getSummary db now))
       = totalIncomeNrs (totals (getSummary db now)) - totalExpenseNrs (totals (getSummary db now))
   \<and> totals (getSummary (db\<lparr> incomes := [], expenses := [] \<rparr>) now)
       = \<lparr> totalIncomeNrs = 0, totalExpenseNrs = 0, netNrs = 0 \<rparr>"
  by (simp add: getSummary_def Let_def or_zero_aggregate_sum del: or_zero.simps)

text \<open>
  C4. The totals of the \<open>incomeByClient\<close> entries add up to \<open>totalIncomeNrs\<close> and those of
  the \<open>expenseBySource\<close> entries to \<open>totalExpenseNrs\<close>. The entries are one per client id
  that occurs among the Income rows and one per source that occurs among the Expense
  rows: a client id without Income rows and a source without Expense rows have no entry.
\<close>

theorem getSummary_breakdown_complete:
  "sum_list (map income_total (incomeByClient (getSummary db now)))
     = totalIncomeNrs (totals (getSummary db now))
   \<and> sum_list (map expense_total (expenseBySource (getSummary db now)))
     = totalExpenseNrs (totals (getSummary db now))
   \<and> set (map entry_clientId (incomeByClient (getSummary db now))) = set (map income_clientId (incomes db))
   \<and> distinct (map entry_clientId (incomeByClient (getSummary db now)))
   \<and> set (map entry_source (expenseBySource (getSummary db now))) = set (map expense_source (expenses db))
   \<and> distinct (map entry_source (expenseBySource (getSummary db now)))"
proof -
  have c: "map entry_clientId (incomeByClient (getSummary db now)) = remdups (map income_clientId (incomes db))"
    using groupBy_sum_keys[of income_clientId income_amountNrs "incomes db"]
    by (simp add: getSummary_def Let_def comp_def)
  have d: "map entry_source (expenseBySource (getSummary db now)) = remdups (map expense_source (expenses db))"
    using groupBy_sum_keys[of expense_source expense_amountNrs "expenses db"]
    by (simp add: getSummary_def Let_def comp_def)
  show ?thesis
    unfolding c d incomeByClient_sum expenseBySource_sum totalIncomeNrs_sum totalExpenseNrs_sum
    by simp
qed

text \<open>
  C10. A client id that the Income rows reference and that has no Client row still has
  its \<open>incomeByClient\<close> entry, with the name \<open>Unknown\<close> and the sum of its Income amounts;
  the entries' totals add up to \<open>totalIncomeNrs\<close> all the same.
\<close>

theorem getSummary_unknown_client:
  assumes "findUnique_client (clients db) cid = None"
    and "cid \<in> set (map income_clientId (incomes db))"
  shows "\<lparr> entry_clientId = cid, entry_name = ''Unknown'',
           income_total = sum_list (map income_amountNrs
                                     (filter (\<lambda>r. income_clientId r = cid) (incomes db))) \<rparr>
           \<in> set (incomeByClient (getSummary db now))
         \<and> sum_list (map income_total (incomeByClient (getSummary db now)))
           = totalIncomeNrs (totals (getSummary db now))"
proof
  show "\<lparr> entry_clientId = cid, entry_name = ''Unknown'',
           income_total = sum_list (map income_amountNrs
                                     (filter (\<lambda>r. income_clientId r = cid) (incomes db))) \<rparr>
           \<in> set (incomeByClient (getSummary db now))"
    using assms unfolding incomeByClient_eq by (auto simp: image_iff intro!: bexI[of _ cid])
  show "sum_list (map income_total (incomeByClient (getSummary db now)))
           = totalIncomeNrs (totals (getSummary db now))"
    by (simp only: incomeByClient_sum totalIncomeNrs_sum)
qed

theorem getSummary_unknown_client_witness:
  "\<lparr> entry_clientId = 7, entry_name = ''Unknown'', income_total = 150 \<rparr>
     \<in> set (incomeByClient (getSummary
          \<lparr> clients = [], staffs = [],
            incomes = [\<lparr> income_clientId = 7, income_amountNrs = 100 \<rparr>,
                       \<lparr> income_clientId = 7, income_amountNrs = 50 \<rparr>],
            expenses = [], staffWorks = [] \<rparr> 0))"
  using getSummary_unknown_client[of
      "\<lparr> clients = [], staffs = [],
         incomes = [\<lparr> income_clientId = 7, income_amountNrs = 100 \<rparr>,
                    \<lparr> income_clientId = 7, income_amountNrs = 50 \<rparr>],
         expenses = [], staffWorks = [] \<rparr>" 7 0]
  by (simp add: findUnique_client_def)

section \<open>Payout preview: the staff filter\<close>

text \<open>
  C9. A staff id of 0 is falsy, so the staff filter is not applied: the preview for staff
  id 0 is the preview with no staff id, for every ledger, month and year.
\<close>

theorem payout_preview_staffId_zero:
  "getStaffWorkPayoutPreview tz db month year (Some 0)
     = getStaffWorkPayoutPreview tz db month year None"
proof -
  have "payout_where tz month year (Some 0) = payout_where tz month year None"
    by (rule ext) (simp add: payout_where_def)
  then show ?thesis by (simp add: getStaffWorkPayoutPreview_def)
qed

section \<open>Payout preview: rows with a null quantity or rate\<close>

text \<open>
  The JavaScript product and sum at sample points: exact below \<open>2 ^ 53\<close>, rounded to the
  nearest double above (the square of \<open>2 ^ 31 - 1\<close> loses its last bit, and a tie goes
  to the even neighbour), and 0 when a factor is null.
\<close>

lemma js_arithmetic_samples:
  "js_times (Some 3) (Some 500) = 1500
   \<and> js_times None (Some 500) = 0
   \<and> js_times (Some 2147483647) (Some 2147483647) = 4611686014132420608
   \<and> js_times (Some (- 2147483647)) (Some 2147483647) = - 4611686014132420608
   \<and> js_plus 9007199254740992 1 = 9007199254740992
   \<and> js_plus 9007199254740992 3 = 9007199254740996"
  by (simp add: js_times_def js_plus_def round_double_def Let_def compute_bitlen)

lemma map_of_obj_set: "map_of (obj_set k v acc) = (map_of acc)(k \<mapsto> v)"
  by (induction acc) (auto simp: fun_eq_iff)

lemma set_obj_set: "set (obj_set k v acc) \<subseteq> insert (k, v) (set acc)"
  by (induction acc) (auto split: if_splits)

lemma payout_step_Some:
  "workItem w = Some wi \<Longrightarrow>
     payout_step acc w =
       Inr (obj_set (work_staffId w)
              ((payout_entry acc w)\<lparr> totalAmount := js_plus (totalAmount (payout_entry acc w))
                                           (js_times (quantity w) (unitRateNrs w)),
                                      works := works (payout_entry acc w) @ [work_line w wi] \<rparr>)
              acc)"
  by (simp add: payout_step_def payout_entry_def work_line_def Let_def)

lemma payout_step_listed_self:
  assumes "payout_step acc w = Inr acc'"
  shows "listed acc' w"
proof (cases "workItem w")
  case None
  with assms show ?thesis by (simp add: payout_step_def Let_def)
next
  case (Some wi)
  with assms have acc': "acc' = obj_set (work_staffId w)
              ((payout_entry acc w)\<lparr> totalAmount := js_plus (totalAmount (payout_entry acc w))
                                           (js_times (quantity w) (unitRateNrs w)),
                                      works := works (payout_entry acc w) @ [work_line w wi] \<rparr>) acc"
    by (simp add: payout_step_Some)
  show ?thesis
    unfolding listed_def acc' map_of_obj_set
    by (intro exI[of _ "(payout_entry acc w)\<lparr> totalAmount := js_plus (totalAmount (payout_entry acc w))
                                           (js_times (quantity w) (unitRateNrs w)),
                                      works := works (payout_entry acc w) @ [work_line w wi] \<rparr>"]
          exI[of _ "work_line w wi"]) (simp add: work_line_def)
qed

lemma payout_step_listed_keep:
  assumes "payout_step acc w = Inr acc'" and "listed acc v"
  shows "listed acc' v"
proof (cases "workItem w")
  case None
  with assms show ?thesis by (simp add: payout_step_def Let_def)
next
  case (Some wi)
  from assms(2) obtain e l where e: "map_of acc (work_staffId v) = Some e" and l: "l \<in> set (works e)"
    "line_id l = work_id v" "line_total l = js_times (quantity v) (unitRateNrs v)"
    "line_quantity l = quantity v" "line_unitRate l = unitRateNrs v"
    unfolding listed_def by blast
  show ?thesis
  proof (cases "work_staffId v = work_staffId w")
    case True
    then have pe: "payout_entry acc w = e" using e by (simp add: payout_entry_def)
    from assms(1) Some have acc': "acc' = obj_set (work_staffId w)
              (e\<lparr> totalAmount := js_plus (totalAmount e) (js_times (quantity w) (unitRateNrs w)),
                  works := works e @ [work_line w wi] \<rparr>) acc"
      by (simp add: payout_step_Some pe)
    show ?thesis unfolding listed_def acc' map_of_obj_set using True l by auto
  next
    case False
    from assms(1) Some have "map_of acc' (work_staffId v) = map_of acc (work_staffId v)"
      using False by (auto simp: payout_step_Some map_of_obj_set)
    then show ?thesis using e l unfolding listed_def by auto
  qed
qed

lemma payout_step_totals:
  assumes "payout_step acc w = Inr acc'" and "totals_add_up acc"
  shows "totals_add_up acc'"
proof (cases "workItem w")
  case None
  with assms show ?thesis by (simp add: payout_step_def Let_def)
next
  case (Some wi)
  have pe: "totalAmount (payout_entry acc w) = running_total (works (payout_entry acc w))"
  proof (cases "map_of acc (work_staffId w)")
    case None
    then show ?thesis by (simp add: payout_entry_def running_total_def)
  next
    case (Some e)
    then have "e \<in> snd ` set acc" by (force dest: map_of_SomeD)
    with assms(2) have "totalAmount e = running_total (works e)"
      unfolding totals_add_up_def by blast
    with Some show ?thesis by (simp add: payout_entry_def)
  qed
  from assms(1) Some have acc': "acc' = obj_set (work_staffId w)
              ((payout_entry acc w)\<lparr> totalAmount := js_plus (totalAmount (payout_entry acc w))
                                           (js_times (quantity w) (unitRateNrs w)),
                                      works := works (payout_entry acc w) @ [work_line w wi] \<rparr>) acc"
    by (simp add: payout_step_Some)
  show ?thesis
    unfolding totals_add_up_def
  proof
    fix e assume "e \<in> snd ` set acc'"
    then obtain k where "(k, e) \<in> set acc'" by auto
    then have "(k, e) = (work_staffId w, (payout_entry acc w)\<lparr> totalAmount := js_plus (totalAmount (payout_entry acc w))
                                           (js_times (quantity w) (unitRateNrs w)),
                                      works := works (payout_entry acc w) @ [work_line w wi] \<rparr>)
               \<or> (k, e) \<in> set acc"
      unfolding acc' using set_obj_set by fastforce
    then show "totalAmount e = running_total (works e)"
    proof
      assume "(k, e) = (work_staffId w, (payout_entry acc w)\<lparr> totalAmount := js_plus (totalAmount (payout_entry acc w))
                                           (js_times (quantity w) (unitRateNrs w)),
                                      works := works (payout_entry acc w) @ [work_line w wi] \<rparr>)"
      then show ?thesis using pe by (simp add: work_line_def running_total_def)
    next
      assume "(k, e) \<in> set acc"
      then have "e \<in> snd ` set acc" by force
      with assms(2) show ?thesis unfolding totals_add_up_def by blast
    qed
  qed
qed

lemma sorted_obj_set:
  "sorted_wrt (<) (map fst acc) \<Longrightarrow> sorted_wrt (<) (map fst (obj_set k v acc))"
proof (induction acc)
  case Nil
  show ?case by simp
next
  case (Cons kv acc)
  obtain k' v' where kv: "kv = (k', v')" by (cases kv)
  have "fst ` set (obj_set k v acc) \<subseteq> insert k (fst ` set acc)"
    using set_obj_set[of k v acc] by force
  then have sub: "\<forall>x\<in>set (obj_set k v acc). fst x = k \<or> fst x \<in> fst ` set acc"
    by auto
  show ?case
  proof (cases "k = k' \<or> k < k'")
    case True
    with Cons.prems kv show ?thesis by auto
  next
    case False
    then have lt: "k' < k" by simp
    from Cons.prems kv have tl: "sorted_wrt (<) (map fst acc)" and hd: "\<forall>x\<in>set acc. k' < fst x"
      by auto
    have "\<forall>x\<in>set (obj_set k v acc). k' < fst x"
    proof
      fix x assume "x \<in> set (obj_set k v acc)"
      with sub have "fst x = k \<or> fst x \<in> fst ` set acc" by blast
      then show "k' < fst x"
      proof
        assume "fst x = k"
        with lt show ?thesis by simp
      next
        assume "fst x \<in> fst ` set acc"
        then obtain y where "y \<in> set acc" and "fst x = fst y" by auto
        with hd show ?thesis by simp
      qed
    qed
    with Cons.IH[OF tl] False kv show ?thesis by auto
  qed
qed

lemma payout_step_sorted:
  assumes "payout_step acc w = Inr acc'" and "sorted_wrt (<) (map fst acc)"
  shows "sorted_wrt (<) (map fst acc')"
proof (cases "workItem w")
  case None
  with assms show ?thesis by (simp add: payout_step_def Let_def)
next
  case (Some wi)
  with assms show ?thesis by (auto simp: payout_step_Some sorted_obj_set)
qed

lemma payout_step_keyed:
  assumes "payout_step acc w = Inr acc'" and "keyed acc"
  shows "keyed acc'"
proof (cases "workItem w")
  case None
  with assms show ?thesis by (simp add: payout_step_def Let_def)
next
  case (Some wi)
  have pe: "payout_staffId (payout_entry acc w) = work_staffId w"
  proof (cases "map_of acc (work_staffId w)")
    case None
    then show ?thesis by (simp add: payout_entry_def)
  next
    case (Some e)
    then have "(work_staffId w, e) \<in> set acc" by (rule map_of_SomeD)
    with assms(2) Some show ?thesis by (auto simp: payout_entry_def keyed_def)
  qed
  from assms(1) Some have acc': "acc' = obj_set (work_staffId w)
              ((payout_entry acc w)\<lparr> totalAmount := js_plus (totalAmount (payout_entry acc w))
                                           (js_times (quantity w) (unitRateNrs w)),
                                      works := works (payout_entry acc w) @ [work_line w wi] \<rparr>) acc"
    by (simp add: payout_step_Some)
  show ?thesis
    unfolding keyed_def acc' using set_obj_set[of "work_staffId w" _ acc] assms(2) pe
    by (fastforce simp: keyed_def)
qed

lemma payout_reduce_keyed:
  "payout_reduce acc ws = Inr acc' \<Longrightarrow> keyed acc \<Longrightarrow> keyed acc'"
proof (induction ws arbitrary: acc)
  case Nil
  then show ?case by simp
next
  case (Cons w ws)
  from Cons.prems obtain acc1 where s: "payout_step acc w = Inr acc1" and r: "payout_reduce acc1 ws = Inr acc'"
    by (auto split: sum.splits)
  show ?case using Cons.IH[OF r payout_step_keyed[OF s Cons.prems(2)]] .
qed

lemma payout_reduce_sorted:
  "payout_reduce acc ws = Inr acc' \<Longrightarrow> sorted_wrt (<) (map fst acc) \<Longrightarrow> sorted_wrt (<) (map fst acc')"
proof (induction ws arbitrary: acc)
  case Nil
  then show ?case by simp
next
  case (Cons w ws)
  from Cons.prems obtain acc1 where s: "payout_step acc w = Inr acc1" and r: "payout_reduce acc1 ws = Inr acc'"
    by (auto split: sum.splits)
  show ?case using Cons.IH[OF r payout_step_sorted[OF s Cons.prems(2)]] .
qed

lemma payout_reduce_returns:
  "\<forall>w\<in>set ws. workItem w \<noteq> None \<Longrightarrow> \<exists>acc'. payout_reduce acc ws = Inr acc'"
proof (induction ws arbitrary: acc)
  case Nil
  show ?case by simp
next
  case (Cons w ws)
  then obtain wi where "workItem w = Some wi" by auto
  then show ?case using Cons by (simp add: payout_step_Some)
qed

lemma payout_reduce_listed:
  "payout_reduce acc ws = Inr acc' \<Longrightarrow>
     (\<forall>v. listed acc v \<longrightarrow> listed acc' v) \<and> (\<forall>w\<in>set ws. listed acc' w)"
proof (induction ws arbitrary: acc)
  case Nil
  then show ?case by simp
next
  case (Cons w ws)
  from Cons.prems obtain acc1 where s: "payout_step acc w = Inr acc1" and r: "payout_reduce acc1 ws = Inr acc'"
    by (auto split: sum.splits)
  from Cons.IH[OF r] have keep: "\<forall>v. listed acc1 v \<longrightarrow> listed acc' v" and rest: "\<forall>w\<in>set ws. listed acc' w"
    by simp_all
  have "listed acc' w" using keep payout_step_listed_self[OF s] by blast
  moreover have "\<forall>v. listed acc v \<longrightarrow> listed acc' v"
    using keep payout_step_listed_keep[OF s] by blast
  ultimately show ?case using rest by simp
qed

lemma payout_reduce_totals:
  "payout_reduce acc ws = Inr acc' \<Longrightarrow> totals_add_up acc \<Longrightarrow> totals_add_up acc'"
proof (induction ws arbitrary: acc)
  case Nil
  then show ?case by simp
next
  case (Cons w ws)
  from Cons.prems obtain acc1 where s: "payout_step acc w = Inr acc1" and r: "payout_reduce acc1 ws = Inr acc'"
    by (auto split: sum.splits)
  show ?case using Cons.IH[OF r payout_step_totals[OF s Cons.prems(2)]] .
qed

text \<open>
  C7, as the code has it. A selected row whose quantity or unit rate is null does not make
  the preview throw: when every selected row has its work item, the preview returns, and
  each such row is listed in the payout of its own staff with the line total 0
  (JavaScript's \<open>null * n\<close> is 0) next to its null quantity or rate. There is one payout
  per staff id, and its \<open>totalAmount\<close> is the running JavaScript sum of its line totals in
  the order of the lines, so the row enters its staff's total as 0.
\<close>

theorem payout_preview_null_quantity_zero_line:
  assumes "\<forall>w\<in>set (staffWorks db). payout_where tz month year staffId w \<longrightarrow> workItem w \<noteq> None"
  shows "\<exists>ps. getStaffWorkPayoutPreview tz db month year staffId = Inr ps
           \<and> (\<forall>w\<in>set (staffWorks db).
                 payout_where tz month year staffId w \<and> (quantity w = None \<or> unitRateNrs w = None) \<longrightarrow>
                 (\<exists>p\<in>set ps. payout_staffId p = work_staffId w \<and> (\<exists>l\<in>set (works p).
                     line_id l = work_id w \<and> line_total l = 0
                     \<and> line_quantity l = quantity w \<and> line_unitRate l = unitRateNrs w)))
           \<and> (\<forall>p\<in>set ps. totalAmount p = running_total (works p))
           \<and> distinct (map payout_staffId ps)"
proof -
  let ?sel = "filter (payout_where tz month year staffId) (staffWorks db)"
  from assms have "\<forall>w\<in>set ?sel. workItem w \<noteq> None" by simp
  from payout_reduce_returns[OF this] obtain acc' where r: "payout_reduce [] ?sel = Inr acc'"
    by blast
  then have res: "getStaffWorkPayoutPreview tz db month year staffId = Inr (map snd acc')"
    by (simp add: getStaffWorkPayoutPreview_def)
  have lst: "\<forall>w\<in>set ?sel. listed acc' w" using payout_reduce_listed[OF r] by blast
  have tot: "totals_add_up acc'" using payout_reduce_totals[OF r] by (simp add: totals_add_up_def)
  have key: "keyed acc'" using payout_reduce_keyed[OF r] by (simp add: keyed_def)
  have srt: "sorted_wrt (<) (map fst acc')" using payout_reduce_sorted[OF r] by simp
  have ids: "map payout_staffId (map snd acc') = map fst acc'"
    using key by (auto simp: keyed_def)
  have zero: "\<forall>w\<in>set (staffWorks db).
                 payout_where tz month year staffId w \<and> (quantity w = None \<or> unitRateNrs w = None) \<longrightarrow>
                 (\<exists>p\<in>set (map snd acc'). payout_staffId p = work_staffId w \<and> (\<exists>l\<in>set (works p).
                     line_id l = work_id w \<and> line_total l = 0
                     \<and> line_quantity l = quantity w \<and> line_unitRate l = unitRateNrs w))"
  proof (intro ballI impI)
    fix w assume w: "w \<in> set (staffWorks db)"
      and c: "payout_where tz month year staffId w \<and> (quantity w = None \<or> unitRateNrs w = None)"
    then have "listed acc' w" using lst by simp
    then obtain e l where e: "map_of acc' (work_staffId w) = Some e" and l: "l \<in> set (works e)"
      "line_id l = work_id w" "line_total l = js_times (quantity w) (unitRateNrs w)"
      "line_quantity l = quantity w" "line_unitRate l = unitRateNrs w"
      unfolding listed_def by blast
    from c have "js_times (quantity w) (unitRateNrs w) = 0"
      by (auto simp: js_times_def round_double_def)
    moreover from e have "e \<in> set (map snd acc')" by (force dest: map_of_SomeD)
    moreover from e key have "payout_staffId e = work_staffId w"
      by (auto simp: keyed_def dest: map_of_SomeD)
    ultimately show "\<exists>p\<in>set (map snd acc'). payout_staffId p = work_staffId w \<and> (\<exists>l\<in>set (works p).
                     line_id l = work_id w \<and> line_total l = 0
                     \<and> line_quantity l = quantity w \<and> line_unitRate l = unitRateNrs w)"
      using l by auto
  qed
  have sums: "\<forall>p\<in>set (map snd acc'). totalAmount p = running_total (works p)"
    using tot by (simp add: totals_add_up_def)
  have "distinct (map payout_staffId (map snd acc'))"
    unfolding ids using srt by (simp add: strict_sorted_iff)
  with res zero sums show ?thesis by blast
qed

theorem payout_preview_null_quantity_zero_line_witness:
  "\<exists>ps. getStaffWorkPayoutPreview 0
           \<lparr> clients = [], staffs = [], incomes = [], expenses = [],
             staffWorks =
               [\<lparr> work_id = 1, work_staffId = 3, quantity = None, unitRateNrs = Some 500,
                  performedAt = 1736899200000,
                  staff = \<lparr> staff_id = 3, staff_name = ''Sita'', staff_type = WORK_BASIS, isActive = True \<rparr>,
                  workItem = Some \<lparr> workItem_id = 1, workItem_title = ''Design'', rateNrs = 500 \<rparr>,
                  client = None \<rparr>] \<rparr> 1 2025 None = Inr ps
       \<and> (\<exists>p\<in>set ps. payout_staffId p = 3
              \<and> (\<exists>l\<in>set (works p). line_id l = 1 \<and> line_total l = 0
                    \<and> line_quantity l = None \<and> line_unitRate l = Some 500))"
proof -
  have "\<exists>ps. getStaffWorkPayoutPreview 0
           \<lparr> clients = [], staffs = [], incomes = [], expenses = [],
             staffWorks =
               [\<lparr> work_id = 1, work_staffId = 3, quantity = None, unitRateNrs = Some 500,
                  performedAt = 1736899200000,
                  staff = \<lparr> staff_id = 3, staff_name = ''Sita'', staff_type = WORK_BASIS, isActive = True \<rparr>,
                  workItem = Some \<lparr> workItem_id = 1, workItem_title = ''Design'', rateNrs = 500 \<rparr>,
                  client = None \<rparr>] \<rparr> 1 2025 None = Inr ps
       \<and> (\<exists>p\<in>set ps. payout_staffId p = 3
              \<and> (\<exists>l\<in>set (works p). line_id l = 1 \<and> line_total l = 0
                    \<and> line_quantity l = None \<and> line_unitRate l = Some 500))
       \<and> (\<forall>p\<in>set ps. totalAmount p = running_total (works p))
       \<and> distinct (map payout_staffId ps)"
    using payout_preview_null_quantity_zero_line[of
      "\<lparr> clients = [], staffs = [], incomes = [], expenses = [],
         staffWorks =
           [\<lparr> work_id = 1, work_staffId = 3, quantity = None, unitRateNrs = Some 500,
              performedAt = 1736899200000,
              staff = \<lparr> staff_id = 3, staff_name = ''Sita'', staff_type = WORK_BASIS, isActive = True \<rparr>,
              workItem = Some \<lparr> workItem_id = 1, workItem_title = ''Design'', rateNrs = 500 \<rparr>,
              client = None \<rparr>] \<rparr>" 0 1 2025 None]
    by (simp add: payout_where_def new_Date_def MakeDay_def DayFromYear_def DaysBeforeMonth_def
        InLeapYear_def msPerDay_def)
  then show ?thesis by blast
qed

text \<open>
  C7 as stated (such a row throws a type error and is never turned into a zero line
  total) fails: for January 2025, a work-basis row with a work item, a null quantity and
  the unit rate 500 is returned as a line with total 0; nothing is thrown.
\<close>

theorem payout_preview_null_quantity_no_throw:
  "getStaffWorkPayoutPreview 0
     \<lparr> clients = [], staffs = [], incomes = [], expenses = [],
       staffWorks =
         [\<lparr> work_id = 1, work_staffId = 3, quantity = None, unitRateNrs = Some 500,
            performedAt = 1736899200000,
            staff = \<lparr> staff_id = 3, staff_name = ''Sita'', staff_type = WORK_BASIS, isActive = True \<rparr>,
            workItem = Some \<lparr> workItem_id = 1, workItem_title = ''Design'', rateNrs = 500 \<rparr>,
            client = None \<rparr>] \<rparr> 1 2025 None
   = Inr [\<lparr> payout_staffId = 3, staffName = ''Sita'', totalAmount = 0,
            works = [\<lparr> line_id = 1, line_workItem = ''Design'', line_client = ''No Client'',
                       line_quantity = None, line_unitRate = Some 500, line_total = 0,
                       line_performedAt = 1736899200000 \<rparr>] \<rparr>]"
  by (simp add: getStaffWorkPayoutPreview_def payout_where_def new_Date_def MakeDay_def
      DayFromYear_def DaysBeforeMonth_def InLeapYear_def msPerDay_def payout_step_def js_times_def js_plus_def round_double_def)

section \<open>Account adjustment with an omitted delta\<close>

text \<open>
  C1 at a call that supplies \<open>lockedDelta = 5\<close> and omits \<open>advanceDelta\<close>: the increment
  computed for \<open>dueAmountNrs\<close> is \<open>5 - undefined\<close>, which is NaN and not 5, and the update
  of the client (locked 100, advance 40, due 60) is refused, so that no column changes.
\<close>

theorem adjustAccount_omitted_delta_fails:
  "increment_dueAmountNrs (adjustAccount_updates \<lparr> lockedDelta = Some 5, advanceDelta = None \<rparr>) = NaN
   \<and> adjustAccount
        \<lparr> clients = [\<lparr> client_id = 1, client_name = ''Acme'', contractStartDate = 0,
                       contractDurationDays = 90, client_type = ACTIVE,
                       lockedAmountNrs = 100, advanceAmountNrs = 40, dueAmountNrs = 60 \<rparr>],
          staffs = [], incomes = [], expenses = [], staffWorks = [] \<rparr>
        1 \<lparr> lockedDelta = Some 5, advanceDelta = None \<rparr>
     = Inl PrismaValidationError"
  by (simp add: adjustAccount_updates_def adjustAccount_def findOne_def findUnique_client_def
      client_update_def)

text \<open>
  X1. A call that supplies both deltas adds \<open>lockedDelta\<close> to \<open>lockedAmountNrs\<close>,
  \<open>advanceDelta\<close> to \<open>advanceAmountNrs\<close> and their difference to \<open>dueAmountNrs\<close>, and the
  accounting identity holds after the call exactly when it held before.
\<close>

theorem adjustAccount_both_deltas_identity:
  assumes "findUnique_client (clients db) i = Some c"
  shows "\<exists>db'. adjustAccount db i \<lparr> lockedDelta = Some l, advanceDelta = Some a \<rparr>
           = Inr (c\<lparr> lockedAmountNrs := lockedAmountNrs c + l,
                     advanceAmountNrs := advanceAmountNrs c + a,
                     dueAmountNrs := dueAmountNrs c + (l - a) \<rparr>, db')
         \<and> accounting_identity (c\<lparr> lockedAmountNrs := lockedAmountNrs c + l,
                     advanceAmountNrs := advanceAmountNrs c + a,
                     dueAmountNrs := dueAmountNrs c + (l - a) \<rparr>) = accounting_identity c"
  using assms
  by (auto simp: adjustAccount_def findOne_def adjustAccount_updates_def client_update_def
      accounting_identity_def)

theorem adjustAccount_both_deltas_identity_witness:
  "\<exists>db'. adjustAccount
        \<lparr> clients = [\<lparr> client_id = 1, client_name = ''Acme'', contractStartDate = 0,
                       contractDurationDays = 90, client_type = ACTIVE,
                       lockedAmountNrs = 100, advanceAmountNrs = 40, dueAmountNrs = 60 \<rparr>],
          staffs = [], incomes = [], expenses = [], staffWorks = [] \<rparr>
        1 \<lparr> lockedDelta = Some 5, advanceDelta = Some (- 10) \<rparr>
     = Inr (\<lparr> client_id = 1, client_name = ''Acme'', contractStartDate = 0,
              contractDurationDays = 90, client_type = ACTIVE,
              lockedAmountNrs = 105, advanceAmountNrs = 30, dueAmountNrs = 75 \<rparr>, db')"
  using adjustAccount_both_deltas_identity[of
      "\<lparr> clients = [\<lparr> client_id = 1, client_name = ''Acme'', contractStartDate = 0,
                     contractDurationDays = 90, client_type = ACTIVE,
                     lockedAmountNrs = 100, advanceAmountNrs = 40, dueAmountNrs = 60 \<rparr>],
        staffs = [], incomes = [], expenses = [], staffWorks = [] \<rparr>"
      1
      "\<lparr> client_id = 1, client_name = ''Acme'', contractStartDate = 0,
         contractDurationDays = 90, client_type = ACTIVE,
         lockedAmountNrs = 100, advanceAmountNrs = 40, dueAmountNrs = 60 \<rparr>"
      5 "- 10"]
  by (simp add: findUnique_client_def)

lemma js_minus_Num: "js_minus x y = Num d \<longleftrightarrow> (\<exists>l a. x = Some l \<and> y = Some a \<and> d = l - a)"
  by (cases x; cases y) auto

lemma find_Some_mem: "find P xs = Some x \<Longrightarrow> x \<in> set xs"
  by (induction xs) (auto split: if_splits)

lemma client_update_identity:
  assumes "client_update (adjustAccount_updates dto) c = Inr c'"
  shows "accounting_identity c' = accounting_identity c"
proof -
  from assms obtain d where d: "js_minus (lockedDelta dto) (advanceDelta dto) = Num d"
    by (cases "js_minus (lockedDelta dto) (advanceDelta dto)")
      (simp_all add: client_update_def adjustAccount_updates_def)
  then obtain l a where la: "lockedDelta dto = Some l" "advanceDelta dto = Some a" "d = l - a"
    unfolding js_minus_Num by blast
  from assms d la have "c' = c\<lparr> lockedAmountNrs := lockedAmountNrs c + l,
                     advanceAmountNrs := advanceAmountNrs c + a,
                     dueAmountNrs := dueAmountNrs c + (l - a) \<rparr>"
    by (simp add: client_update_def adjustAccount_updates_def)
  then show ?thesis by (auto simp: accounting_identity_def)
qed

lemma adjustAccount_identity:
  assumes "adjustAccount db i dto = Inr (c', db')"
    and "\<forall>c\<in>set (clients db). accounting_identity c"
  shows "\<forall>c\<in>set (clients db'). accounting_identity c"
proof -
  from assms(1) obtain c where f: "findUnique_client (clients db) i = Some c"
    and u: "client_update (adjustAccount_updates dto) c = Inr c'"
    and db': "db' = db\<lparr> clients := map (\<lambda>x. if client_id x = i then c' else x) (clients db) \<rparr>"
    by (auto simp: adjustAccount_def findOne_def split: option.splits sum.splits)
  from f have "c \<in> set (clients db)" unfolding findUnique_client_def by (rule find_Some_mem)
  with assms(2) have "accounting_identity c" by blast
  with client_update_identity[OF u] have "accounting_identity c'" by simp
  with assms(2) show ?thesis unfolding db' by auto
qed

text \<open>
  X5. Over any sequence of \<open>adjustAccount\<close> calls on a ledger, where a call that throws
  leaves the ledger as it was, the accounting identity of every client row is kept: if
  all rows satisfy \<open>dueAmountNrs = lockedAmountNrs - advanceAmountNrs\<close> before the
  sequence, all rows satisfy it after.
\<close>

theorem adjustAccount_calls_identity:
  assumes "\<forall>c\<in>set (clients db). accounting_identity c"
  shows "\<forall>c\<in>set (clients (adjustAccount_calls db i dtos)). accounting_identity c"
  using assms
proof (induction dtos arbitrary: db)
  case Nil
  then show ?case by simp
next
  case (Cons dto dtos)
  show ?case
  proof (cases "adjustAccount db i dto")
    case (Inl e)
    then show ?thesis using Cons by simp
  next
    case (Inr r)
    obtain c' db' where r: "r = (c', db')" by (cases r)
    from adjustAccount_identity[OF Inr[unfolded r] Cons.prems]
    have "\<forall>c\<in>set (clients db'). accounting_identity c" .
    from Cons.IH[OF this] show ?thesis using Inr r by simp
  qed
qed

theorem adjustAccount_calls_identity_witness:
  "list_all accounting_identity (clients (adjustAccount_calls
        \<lparr> clients = [\<lparr> client_id = 1, client_name = ''Acme'', contractStartDate = 0,
                       contractDurationDays = 90, client_type = ACTIVE,
                       lockedAmountNrs = 100, advanceAmountNrs = 40, dueAmountNrs = 60 \<rparr>],
          staffs = [], incomes = [], expenses = [], staffWorks = [] \<rparr>
        1 [\<lparr> lockedDelta = Some 5, advanceDelta = Some (- 10) \<rparr>,
           \<lparr> lockedDelta = Some (- 200), advanceDelta = Some 0 \<rparr>]))"
  using adjustAccount_calls_identity[of
      "\<lparr> clients = [\<lparr> client_id = 1, client_name = ''Acme'', contractStartDate = 0,
                     contractDurationDays = 90, client_type = ACTIVE,
                     lockedAmountNrs = 100, advanceAmountNrs = 40, dueAmountNrs = 60 \<rparr>],
        staffs = [], incomes = [], expenses = [], staffWorks = [] \<rparr>"
      1 "[\<lparr> lockedDelta = Some 5, advanceDelta = Some (- 10) \<rparr>,
           \<lparr> lockedDelta = Some (- 200), advanceDelta = Some 0 \<rparr>]"]
  by (simp add: accounting_identity_def list_all_iff)

section \<open>Account summary: the contract-expiry counts\<close>

text \<open>
  C2 at \<open>now = 0\<close> with one ACTIVE client whose contract starts an hour later: the client
  lies in \<open>(now, now + 1 day]\<close>, and \<open>contractsExpiringIn1Day\<close> is 0.
\<close>

theorem getSummary_expiring_counts_miss_client:
  "contractsExpiringIn1Day (counts (getSummary
      \<lparr> clients = [\<lparr> client_id = 1, client_name = ''Acme'', contractStartDate = 3600000,
                     contractDurationDays = 90, client_type = ACTIVE,
                     lockedAmountNrs = 0, advanceAmountNrs = 0, dueAmountNrs = 0 \<rparr>],
        staffs = [], incomes = [], expenses = [], staffWorks = [] \<rparr> 0)) = 0
   \<and> expiring_within
       [\<lparr> client_id = 1, client_name = ''Acme'', contractStartDate = 3600000,
          contractDurationDays = 90, client_type = ACTIVE,
          lockedAmountNrs = 0, advanceAmountNrs = 0, dueAmountNrs = 0 \<rparr>] 0 1 = 1"
  by (simp add: getSummary_def Let_def count_where_def expiring_where_def expiring_within_def
      msPerDay_def)

lemma expiring_where_never: "\<not> expiring_where now horizon c"
  by (simp add: expiring_where_def)

text \<open>
  X2. The filter of the contract-expiry counts asks for a \<open>contractStartDate\<close> that is
  both at most \<open>now\<close> and after \<open>now\<close>, so the three counts are 0 for every ledger and
  every instant.
\<close>

theorem getSummary_expiring_counts_zero:
  "contractsExpiringIn30Days (counts (getSummary db now)) = 0
   \<and> contractsExpiringIn7Days (counts (getSummary db now)) = 0
   \<and> contractsExpiringIn1Day (counts (getSummary db now)) = 0"
  by (simp add: getSummary_def Let_def count_where_def expiring_where_never)

section \<open>Payout preview: the month window\<close>

text \<open>
  C6 for January 2025 in a zone at UTC: a work-basis row performed at noon of 31 January
  falls on the last calendar day of the month, and the preview is empty.
\<close>

theorem payout_preview_misses_last_day:
  "local_day 0 1738324800000 = last_day_of_month 2025 1
   \<and> getStaffWorkPayoutPreview 0
     \<lparr> clients = [], staffs = [], incomes = [], expenses = [],
       staffWorks =
         [\<lparr> work_id = 1, work_staffId = 3, quantity = Some 3, unitRateNrs = Some 500,
            performedAt = 1738324800000,
            staff = \<lparr> staff_id = 3, staff_name = ''Sita'', staff_type = WORK_BASIS, isActive = True \<rparr>,
            workItem = Some \<lparr> workItem_id = 1, workItem_title = ''Design'', rateNrs = 500 \<rparr>,
            client = None \<rparr>] \<rparr> 1 2025 None
   = Inr []"
  by (simp add: getStaffWorkPayoutPreview_def payout_where_def new_Date_def MakeDay_def
      DayFromYear_def DaysBeforeMonth_def InLeapYear_def msPerDay_def local_day_def
      last_day_of_month_def)

lemma MakeDay_day0: "MakeDay y m 0 = MakeDay y m 1 - 1"
  by (simp add: MakeDay_def Let_def)

text \<open>
  X3. Every row the preview selects was performed no later than the last calendar day of
  the queried month, hence before the first day of the next month; a selected row of that
  last day was performed at its local midnight exactly.
\<close>

theorem payout_where_month_window:
  assumes "payout_where tz month year staffId w" and "100 \<le> year"
  shows "local_day tz (performedAt w) \<le> last_day_of_month year month
         \<and> local_day tz (performedAt w) < first_day_of_next_month year month
         \<and> (local_day tz (performedAt w) = last_day_of_month year month
              \<longrightarrow> performedAt w + tz = last_day_of_month year month * msPerDay)"
proof -
  let ?L = "last_day_of_month year month"
  from assms have "performedAt w \<le> MakeDay year month 0 * msPerDay - tz"
    by (simp add: payout_where_def new_Date_def Let_def)
  then have le: "performedAt w + tz \<le> ?L * 86400000"
    by (simp add: MakeDay_day0 last_day_of_month_def msPerDay_def)
  then have d: "(performedAt w + tz) div 86400000 \<le> ?L"
    by linarith
  show ?thesis
    using le d by (auto simp: local_day_def msPerDay_def first_day_of_next_month_def last_day_of_month_def)
qed

theorem payout_where_month_window_witness:
  "local_day 0 1738281600000 = last_day_of_month 2025 1
   \<and> local_day 0 1738281600000 < first_day_of_next_month 2025 1
   \<and> (1738281600000::int) = last_day_of_month 2025 1 * msPerDay"
  using payout_where_month_window[of 0 1 2025 None
      "\<lparr> work_id = 1, work_staffId = 3, quantity = Some 3, unitRateNrs = Some 500,
         performedAt = 1738281600000,
         staff = \<lparr> staff_id = 3, staff_name = ''Sita'', staff_type = WORK_BASIS, isActive = True \<rparr>,
         workItem = Some \<lparr> workItem_id = 1, workItem_title = ''Design'', rateNrs = 500 \<rparr>,
         client = None \<rparr>"]
  by (simp add: payout_where_def new_Date_def MakeDay_def DayFromYear_def DaysBeforeMonth_def
      InLeapYear_def msPerDay_def local_day_def last_day_of_month_def first_day_of_next_month_def)

text \<open>
  X4. Two rows of one work-basis staff within the queried month, 3 units at 500 and 2
  units at 200, give that staff the \<open>totalAmount\<close> 1900.
\<close>

theorem payout_preview_total_scenario:
  "getStaffWorkPayoutPreview 0
     \<lparr> clients = [], staffs = [], incomes = [], expenses = [],
       staffWorks =
         [\<lparr> work_id = 1, work_staffId = 3, quantity = Some 3, unitRateNrs = Some 500,
            performedAt = 1736899200000,
            staff = \<lparr> staff_id = 3, staff_name = ''Sita'', staff_type = WORK_BASIS, isActive = True \<rparr>,
            workItem = Some \<lparr> workItem_id = 1, workItem_title = ''Design'', rateNrs = 500 \<rparr>,
            client = None \<rparr>,
          \<lparr> work_id = 2, work_staffId = 3, quantity = Some 2, unitRateNrs = Some 200,
            performedAt = 1736899200000,
            staff = \<lparr> staff_id = 3, staff_name = ''Sita'', staff_type = WORK_BASIS, isActive = True \<rparr>,
            workItem = Some \<lparr> workItem_id = 2, workItem_title = ''Print'', rateNrs = 200 \<rparr>,
            client = None \<rparr>] \<rparr> 1 2025 (Some 3)
   = Inr [\<lparr> payout_staffId = 3, staffName = ''Sita'', totalAmount = 1900,
            works = [\<lparr> line_id = 1, line_workItem = ''Design'', line_client = ''No Client'',
                       line_quantity = Some 3, line_unitRate = Some 500, line_total = 1500,
                       line_performedAt = 1736899200000 \<rparr>,
                     \<lparr> line_id = 2, line_workItem = ''Print'', line_client = ''No Client'',
                       line_quantity = Some 2, line_unitRate = Some 200, line_total = 400,
                       line_performedAt = 1736899200000 \<rparr>] \<rparr>]"
  by (simp add: getStaffWorkPayoutPreview_def payout_where_def new_Date_def MakeDay_def
      DayFromYear_def DaysBeforeMonth_def InLeapYear_def msPerDay_def payout_step_def js_times_def js_plus_def round_double_def)

end
